theory Spec2Isabelle
  imports Complex_Main "HOL-Library.Multiset"
begin

section \<open>The dashboard: \<^verbatim>\<open>6DashboardOrNotifier/dashboard.py\<close>\<close>

subsection \<open>The database seen by \<^verbatim>\<open>fetch_trades\<close>\<close>

text \<open>
  A row of the data frame has the three columns of the SELECT list. A row of the table
  \<^verbatim>\<open>market.trades\<close> has in addition the column \<^verbatim>\<open>symbol\<close> of the WHERE clause.
  Timestamps are integers (ticks since an epoch). Prices and quantities are exact
  rationals: the rounding of the float64 columns of pandas is not modelled.
\<close>

record df_row =
  trade_time :: int
  price :: rat
  quantity :: rat

record trade_row = df_row +
  symbol :: string

type_synonym DataFrame = "df_row list"

datatype error = OperationalError | DatabaseError

datatype conn_state = Open | Closed

text \<open>
  The server either accepts connections or not (\<^verbatim>\<open>psycopg2.connect\<close> raises
  \<^verbatim>\<open>OperationalError\<close>), and the relation \<^verbatim>\<open>market.trades\<close> either exists, with its
  rows in physical order, or not (the query raises). The process holds a list of
  connection handles; a handle is its index in that list.
\<close>

record pg_server =
  accepting :: bool
  trades_table :: "trade_row list option"

record world =
  server :: pg_server
  conns :: "conn_state list"

definition connect :: "world \<Rightarrow> error + (nat \<times> world)" where
  "connect w =
     (if accepting (server w)
      then Inr (length (conns w), w\<lparr>conns := conns w @ [Open]\<rparr>)
      else Inl OperationalError)"

definition close_conn :: "world \<Rightarrow> nat \<Rightarrow> world" where
  "close_conn w c = w\<lparr>conns := (conns w)[c := Closed]\<rparr>"

subsection \<open>The query\<close>

definition select_cols :: "trade_row \<Rightarrow> df_row" where
  "select_cols r = \<lparr>trade_time = trade_time r, price = price r, quantity = quantity r\<rparr>"

text \<open>
  \<^verbatim>\<open>WHERE symbol = %s\<close>: the rows of the symbol, projected to the SELECT list.
\<close>

definition where_symbol :: "trade_row list \<Rightarrow> string \<Rightarrow> DataFrame" where
  "where_symbol tbl symb = map select_cols (filter (\<lambda>r. symbol r = symb) tbl)"

text \<open>
  \<^verbatim>\<open>ORDER BY trade_time DESC\<close>. SQL leaves the order of rows with equal keys open;
  here they keep their table order.
\<close>

definition order_by_desc :: "DataFrame \<Rightarrow> DataFrame" where
  "order_by_desc rows = sort_key (\<lambda>r. - trade_time r) rows"

text \<open>
  \<^verbatim>\<open>LIMIT %s\<close>: the row count of LIMIT is a \<^verbatim>\<open>bigint\<close>. PostgreSQL rejects a
  count that is negative and one that does not fit 64 bits (the query raises), and
  otherwise keeps the first rows.
\<close>

definition run_query :: "trade_row list \<Rightarrow> string \<Rightarrow> int \<Rightarrow> error + DataFrame" where
  "run_query tbl symb limit =
     (if limit < 0 \<or> 2 ^ 63 \<le> limit then Inl DatabaseError
      else Inr (take (nat limit) (order_by_desc (where_symbol tbl symb))))"

text \<open>\<^verbatim>\<open>pd.read_sql(query, conn, params=(symbol, limit))\<close> on an open connection.\<close>

definition read_sql :: "world \<Rightarrow> nat \<Rightarrow> string \<Rightarrow> int \<Rightarrow> error + DataFrame" where
  "read_sql w c symb limit =
     (case trades_table (server w) of
        None \<Rightarrow> Inl DatabaseError
      | Some tbl \<Rightarrow> run_query tbl symb limit)"

text \<open>\<^verbatim>\<open>df.sort_values("trade_time")\<close>: ascending.\<close>

definition sort_values :: "DataFrame \<Rightarrow> DataFrame" where
  "sort_values df = sort_key trade_time df"

text \<open>
  \<^verbatim>\<open>fetch_trades(symbol, limit)\<close>. A failing \<^verbatim>\<open>connect\<close> raises before the
  \<^verbatim>\<open>try\<close>; inside it the \<^verbatim>\<open>finally\<close> clause closes the connection whether
  \<^verbatim>\<open>read_sql\<close> returned or raised, and an exception then propagates.
\<close>

definition fetch_trades :: "world \<Rightarrow> string \<Rightarrow> int \<Rightarrow> world \<times> (error + DataFrame)" where
  "fetch_trades w symb limit =
     (case connect w of
        Inl e \<Rightarrow> (w, Inl e)
      | Inr (conn, w1) \<Rightarrow>
          (let r = read_sql w1 conn symb limit;
               w2 = close_conn w1 conn
           in case r of
                Inl e \<Rightarrow> (w2, Inl e)
              | Inr df \<Rightarrow> (w2, Inr (if df \<noteq> [] then sort_values df else df))))"

subsection \<open>The chart\<close>

text \<open>
  \<^verbatim>\<open>Series.rolling(window=k).mean()\<close> of pandas, for a fixed window: the window of index
  \<open>i\<close> holds the observations at the indices \<open>i - k + 1 .. i\<close> that exist;
  \<open>min_periods\<close> defaults to \<open>k\<close>, and the entry is NaN (here \<open>None\<close>) unless the
  window holds at least \<open>min_periods\<close> observations and at least one.
\<close>

definition rolling_window :: "nat \<Rightarrow> 'a list \<Rightarrow> nat \<Rightarrow> 'a list" where
  "rolling_window k xs i = take (Suc i - (Suc i - k)) (drop (Suc i - k) xs)"

definition mean :: "rat list \<Rightarrow> rat" where
  "mean obs = sum_list obs / of_nat (length obs)"

definition rolling_mean :: "nat \<Rightarrow> rat list \<Rightarrow> rat option list" where
  "rolling_mean k xs =
     map (\<lambda>i. let obs = rolling_window k xs i
              in if k \<le> length obs \<and> 0 < length obs then Some (mean obs) else None)
         [0..<length xs]"

record scatter =
  trace_x :: "int list"
  trace_y :: "rat option list"
  trace_mode :: string
  trace_name :: string
  trace_line_dash :: "string option"

record layout =
  layout_title :: string
  xaxis_title :: string
  yaxis_title :: string
  hovermode :: "string option"
  margin :: "(nat \<times> nat \<times> nat \<times> nat) option"
  paper_bgcolor :: "string option"
  plot_bgcolor :: "string option"
  font_color :: "string option"

record figure =
  fig_data :: "scatter list"
  fig_layout :: layout

text \<open>The en dash of the two titles, as its UTF-8 bytes.\<close>

definition en_dash :: string where
  "en_dash = [CHR 0xE2, CHR 0x80, CHR 0x93]"

text \<open>\<^verbatim>\<open>str(n)\<close> for the row count in the title.\<close>

definition digit_char :: "nat \<Rightarrow> char" where
  "digit_char d = char_of (48 + d)"

fun str_nat :: "nat \<Rightarrow> string" where
  "str_nat n = (if n < 10 then [digit_char n] else str_nat (n div 10) @ [digit_char (n mod 10)])"

definition price_trace :: "DataFrame \<Rightarrow> scatter" where
  "price_trace df =
     \<lparr>trace_x = map trade_time df, trace_y = map (\<lambda>r. Some (price r)) df,
      trace_mode = ''lines+markers'', trace_name = ''Price'', trace_line_dash = None\<rparr>"

definition ma_trace :: "DataFrame \<Rightarrow> scatter" where
  "ma_trace df =
     \<lparr>trace_x = map trade_time df, trace_y = rolling_mean 10 (map price df),
      trace_mode = ''lines'', trace_name = ''MA(10)'', trace_line_dash = Some ''dash''\<rparr>"

definition chart_traces :: "DataFrame \<Rightarrow> scatter list" where
  "chart_traces df = (if 10 \<le> length df then [price_trace df, ma_trace df] else [price_trace df])"

definition no_data_figure :: "string \<Rightarrow> figure" where
  "no_data_figure selected_symbol =
     \<lparr>fig_data = [],
      fig_layout = \<lparr>layout_title = selected_symbol @ '' '' @ en_dash @ '' no data found'',
                    xaxis_title = ''Time'', yaxis_title = ''Price (USDT)'',
                    hovermode = None, margin = None, paper_bgcolor = None,
                    plot_bgcolor = None, font_color = None\<rparr>\<rparr>"

definition chart_figure :: "string \<Rightarrow> DataFrame \<Rightarrow> figure" where
  "chart_figure selected_symbol df =
     \<lparr>fig_data = chart_traces df,
      fig_layout = \<lparr>layout_title = selected_symbol @ '' '' @ en_dash @ '' last ''
                                   @ str_nat (length df) @ '' trades'',
                    xaxis_title = ''Trade Time'', yaxis_title = ''Price (USDT)'',
                    hovermode = Some ''x unified'', margin = Some (60, 30, 70, 60),
                    paper_bgcolor = Some ''#C0F6CE'', plot_bgcolor = Some ''#CEE6F1'',
                    font_color = Some ''black''\<rparr>\<rparr>"

text \<open>
  \<^verbatim>\<open>update_chart(selected_symbol, n_points, n_intervals)\<close>: an exception of
  \<^verbatim>\<open>fetch_trades\<close> propagates.
\<close>

definition update_chart :: "world \<Rightarrow> string \<Rightarrow> int \<Rightarrow> int \<Rightarrow> world \<times> (error + figure)" where
  "update_chart w selected_symbol n_points n_intervals =
     (case fetch_trades w selected_symbol n_points of
        (w', Inl e) \<Rightarrow> (w', Inl e)
      | (w', Inr df) \<Rightarrow>
          (if df = [] then (w', Inr (no_data_figure selected_symbol))
           else (w', Inr (chart_figure selected_symbol df))))"

section \<open>The consumer: \<^verbatim>\<open>consumers/coinbaseConsumer.py\<close>\<close>

text \<open>
  A byte string either decodes as UTF-8 to a text or does not
  (\<^verbatim>\<open>bytes.decode()\<close> raises \<^verbatim>\<open>UnicodeDecodeError\<close>).
\<close>

datatype py_bytes = Utf8 string | NotUtf8

text \<open>
  What \<^verbatim>\<open>consumer.poll(1.0)\<close> hands back: \<^verbatim>\<open>None\<close> after the wait of one second,
  or a message, whose \<^verbatim>\<open>error()\<close> is \<^verbatim>\<open>None\<close> or an error of the bus and whose key and
  value may be absent. A Ctrl+C arrives as \<^verbatim>\<open>KeyboardInterrupt\<close> while the consumer
  waits.
\<close>

record message =
  msg_error :: "string option"
  msg_key :: "py_bytes option"
  msg_value :: "py_bytes option"

datatype poll_result = NoMessage | Message message | CtrlC

datatype exn = KafkaException string | AttributeError | UnicodeDecodeError

datatype status = Running | Interrupted | Raised exn

record consumer_state =
  stdout :: "string list"
  status :: status
  closed :: bool

fun decode :: "py_bytes \<Rightarrow> exn + string" where
  "decode (Utf8 s) = Inr s"
| "decode NotUtf8 = Inl UnicodeDecodeError"

text \<open>\<^verbatim>\<open>msg.key().decode() if msg.key() else None\<close>: an empty key is falsy too.\<close>

fun key_text :: "py_bytes option \<Rightarrow> exn + string" where
  "key_text None = Inr ''None''"
| "key_text (Some (Utf8 [])) = Inr ''None''"
| "key_text (Some b) = decode b"

text \<open>\<^verbatim>\<open>msg.value().decode()\<close>: an absent value has no \<^verbatim>\<open>decode\<close>.\<close>

fun value_text :: "py_bytes option \<Rightarrow> exn + string" where
  "value_text None = Inl AttributeError"
| "value_text (Some b) = decode b"

definition received_line :: "message \<Rightarrow> exn + string" where
  "received_line m =
     (case key_text (msg_key m) of
        Inl e \<Rightarrow> Inl e
      | Inr k \<Rightarrow>
          (case value_text (msg_value m) of
             Inl e \<Rightarrow> Inl e
           | Inr v \<Rightarrow> Inr (''Received message: key='' @ k @ '', value='' @ v)))"

definition banner :: string where
  "banner = ''Waiting for messages...'' @ [CHR 0x0A] @ ''Press Ctrl+C to exit.'' @ [CHR 0x0A]"

definition interrupted_line :: string where
  "interrupted_line = [CHR 0x0A] @ ''Interrupted. Closing consumer...''"

text \<open>
  One turn of \<^verbatim>\<open>while True\<close>: \<^verbatim>\<open>continue\<close> on \<^verbatim>\<open>None\<close>, \<^verbatim>\<open>raise KafkaException\<close>
  on a message that carries an error, and a printed line otherwise. The handler of
  \<^verbatim>\<open>KeyboardInterrupt\<close> prints its line; no other exception is handled.
\<close>

definition on_poll :: "consumer_state \<Rightarrow> poll_result \<Rightarrow> consumer_state" where
  "on_poll s p =
     (case p of
        NoMessage \<Rightarrow> s
      | CtrlC \<Rightarrow> s\<lparr>stdout := stdout s @ [interrupted_line], status := Interrupted\<rparr>
      | Message m \<Rightarrow>
          (case msg_error m of
             Some e \<Rightarrow> s\<lparr>status := Raised (KafkaException e)\<rparr>
           | None \<Rightarrow>
               (case received_line m of
                  Inl e \<Rightarrow> s\<lparr>status := Raised e\<rparr>
                | Inr l \<Rightarrow> s\<lparr>stdout := stdout s @ [l]\<rparr>)))"

text \<open>
  The loop over the poll results that have arrived so far. It never ends by itself: when
  the results run out the consumer is still \<open>Running\<close>, waiting in \<^verbatim>\<open>poll\<close>.
\<close>

fun poll_loop :: "consumer_state \<Rightarrow> poll_result list \<Rightarrow> consumer_state" where
  "poll_loop s [] = s"
| "poll_loop s (p # ps) = (if status s = Running then poll_loop (on_poll s p) ps else s)"

text \<open>\<^verbatim>\<open>finally: consumer.close()\<close>, reached once the loop has been left.\<close>

definition finally_close :: "consumer_state \<Rightarrow> consumer_state" where
  "finally_close s = (if status s = Running then s else s\<lparr>closed := True\<rparr>)"

definition started :: consumer_state where
  "started = \<lparr>stdout = [banner], status = Running, closed = False\<rparr>"

definition consumer_main :: "poll_result list \<Rightarrow> consumer_state" where
  "consumer_main ps = finally_close (poll_loop started ps)"

section \<open>The Trade Store\<close>

text \<open>
  Modelled from the spec: the Trade Store and its \<open>upsert\<close> (4.2). No source file
  writes the table \<^verbatim>\<open>market.trades\<close>: the consumer above prints what it receives and the
  dashboard only reads. The store keeps one StoredTrade per \<open>dedupKey\<close>; an upsert
  of a key that is stored changes nothing and answers \<open>Ack\<close>.
\<close>

record StoredTrade =
  dedupKey :: string
  tradeSymbol :: string
  tradeTime :: int
  tradePrice :: rat
  tradeQuantity :: rat
  ingestedAt :: int

datatype upsert_result = Ack | StoreError

type_synonym TradeStore = "StoredTrade list"

definition upsert :: "StoredTrade \<Rightarrow> TradeStore \<Rightarrow> upsert_result \<times> TradeStore" where
  "upsert t store =
     (if dedupKey t \<in> set (map dedupKey store) then (Ack, store) else (Ack, store @ [t]))"

text \<open>Events submitted one after the other, in any interleaving the list spells out.\<close>

fun submit_all :: "StoredTrade list \<Rightarrow> TradeStore \<Rightarrow> TradeStore" where
  "submit_all [] store = store"
| "submit_all (t # ts) store = submit_all ts (snd (upsert t store))"

section \<open>Example inputs\<close>

definition row :: "string \<Rightarrow> int \<Rightarrow> rat \<Rightarrow> trade_row" where
  "row s t p = \<lparr>trade_time = t, price = p, quantity = 1, symbol = s\<rparr>"

definition example_table :: "trade_row list" where
  "example_table =
     [row ''BTCUSDT'' 30 103, row ''ETHUSDT'' 10 7, row ''BTCUSDT'' 10 101,
      row ''BTCUSDT'' 40 104, row ''BTCUSDT'' 20 102]"

definition tied_table :: "trade_row list" where
  "tied_table = [row ''BTCUSDT'' 10 101, row ''BTCUSDT'' 10 102]"

definition world_of :: "trade_row list \<Rightarrow> world" where
  "world_of tbl = \<lparr>server = \<lparr>accepting = True, trades_table = Some tbl\<rparr>, conns = []\<rparr>"

definition world_without_table :: world where
  "world_without_table = \<lparr>server = \<lparr>accepting = True, trades_table = None\<rparr>, conns = []\<rparr>"

definition bus_error_message :: message where
  "bus_error_message = \<lparr>msg_error = Some ''Broker transport failure'', msg_key = None, msg_value = None\<rparr>"

definition trade_message :: message where
  "trade_message = \<lparr>msg_error = None, msg_key = Some (Utf8 ''BTC-USD''), msg_value = Some (Utf8 ''42'')\<rparr>"

definition stored :: "string \<Rightarrow> int \<Rightarrow> StoredTrade" where
  "stored k t = \<lparr>dedupKey = k, tradeSymbol = ''BTCUSDT'', tradeTime = t, tradePrice = 100,
                 tradeQuantity = 1, ingestedAt = t\<rparr>"

section \<open>Properties of the dashboard\<close>

lemma conns_fetch_trades:
  "conns (fst (fetch_trades w symb limit)) =
     (if accepting (server w) then conns w @ [Closed] else conns w)"
  by (simp add: fetch_trades_def connect_def close_conn_def Let_def split: sum.splits)

text \<open>
  C10: \<^verbatim>\<open>fetch_trades\<close> leaves no connection of its own open, on any path: the
  handles it found are untouched, and the one handle it may have added is closed, also
  when the query raised.
\<close>

theorem fetch_trades_closes_connection:
  "take (length (conns w)) (conns (fst (fetch_trades w symb limit))) = conns w
   \<and> (\<forall>i. length (conns w) \<le> i \<and> i < length (conns (fst (fetch_trades w symb limit)))
          \<longrightarrow> conns (fst (fetch_trades w symb limit)) ! i = Closed)
   \<and> length (filter (\<lambda>c. c = Open) (conns (fst (fetch_trades w symb limit))))
       = length (filter (\<lambda>c. c = Open) (conns w))"
  by (auto simp add: conns_fetch_trades nth_append)

theorem fetch_trades_closes_connection_witness:
  "snd (fetch_trades world_without_table ''BTCUSDT'' 200) = Inl DatabaseError
   \<and> conns (fst (fetch_trades world_without_table ''BTCUSDT'' 200)) = [Closed]
   \<and> conns (fst (fetch_trades (world_of example_table) ''BTCUSDT'' 200)) = [Closed]"
proof -
  have "conns (fst (fetch_trades world_without_table ''BTCUSDT'' 200)) ! 0 = Closed"
    using fetch_trades_closes_connection [of world_without_table "''BTCUSDT''" 200]
    by (simp add: world_without_table_def conns_fetch_trades)
  moreover have "conns (fst (fetch_trades (world_of example_table) ''BTCUSDT'' 200)) ! 0 = Closed"
    using fetch_trades_closes_connection [of "world_of example_table" "''BTCUSDT''" 200]
    by (simp add: world_of_def conns_fetch_trades)
  moreover have "snd (fetch_trades world_without_table ''BTCUSDT'' 200) = Inl DatabaseError"
    by (simp add: world_without_table_def fetch_trades_def connect_def read_sql_def
        close_conn_def)
  moreover have "length (conns (fst (fetch_trades world_without_table ''BTCUSDT'' 200))) = 1"
    by (simp add: conns_fetch_trades world_without_table_def)
  moreover have "length (conns (fst (fetch_trades (world_of example_table) ''BTCUSDT'' 200))) = 1"
    by (simp add: conns_fetch_trades world_of_def)
  ultimately show ?thesis
    by (auto simp add: length_Suc_conv)
qed

text \<open>
  C9: the tick counter \<open>n_intervals\<close> has no influence on what \<^verbatim>\<open>update_chart\<close>
  returns, for the same symbol, row count and database.
\<close>

theorem update_chart_ignores_n_intervals:
  "update_chart w selected_symbol n_points n_intervals
     = update_chart w selected_symbol n_points n_intervals'"
  by (simp add: update_chart_def)

section \<open>Properties of the consumer\<close>

lemma poll_loop_stopped: "status s \<noteq> Running \<Longrightarrow> poll_loop s ps = s"
  by (cases ps) simp_all

lemma poll_loop_append: "poll_loop s (ps @ qs) = poll_loop (poll_loop s ps) qs"
proof (induction ps arbitrary: s)
  case Nil
  show ?case by simp
next
  case (Cons p ps)
  show ?case
  proof (cases "status s = Running")
    case True
    with Cons.IH show ?thesis by simp
  next
    case False
    then show ?thesis by (simp add: poll_loop_stopped)
  qed
qed

text \<open>
  C8: a poll that times out changes nothing, and the consumer polls again: its state
  after the turn is the state before it, still running if it was, and the whole run is
  the run with the timeouts left out.
\<close>

theorem timeout_is_a_no_op:
  "on_poll s NoMessage = s
   \<and> poll_loop s (NoMessage # ps) = poll_loop s ps
   \<and> poll_loop s (filter (\<lambda>p. p \<noteq> NoMessage) ps) = poll_loop s ps"
proof -
  have step: "on_poll s NoMessage = s" for s
    by (simp add: on_poll_def)
  have skip: "poll_loop s (NoMessage # ps) = poll_loop s ps" for s ps
    by (cases "status s = Running") (simp_all add: step poll_loop_stopped)
  have "poll_loop s (filter (\<lambda>p. p \<noteq> NoMessage) ps) = poll_loop s ps"
  proof (induction ps arbitrary: s)
    case Nil
    show ?case by simp
  next
    case (Cons p ps)
    show ?case
    proof (cases "p = NoMessage")
      case True
      with Cons.IH skip show ?thesis by simp
    next
      case False
      with Cons.IH show ?thesis by simp
    qed
  qed
  with step skip show ?thesis by simp
qed

theorem timeout_is_a_no_op_witness:
  "consumer_main [NoMessage, Message trade_message, NoMessage, NoMessage]
     = consumer_main [Message trade_message]
   \<and> status (consumer_main [NoMessage, NoMessage]) = Running
   \<and> stdout (consumer_main [NoMessage, NoMessage]) = [banner]"
proof -
  have "poll_loop started (filter (\<lambda>p. p \<noteq> NoMessage)
            [NoMessage, Message trade_message, NoMessage, NoMessage])
          = poll_loop started [NoMessage, Message trade_message, NoMessage, NoMessage]"
    using timeout_is_a_no_op
      [of started "[NoMessage, Message trade_message, NoMessage, NoMessage]"] by blast
  then have "consumer_main [NoMessage, Message trade_message, NoMessage, NoMessage]
          = consumer_main [Message trade_message]"
    by (simp add: consumer_main_def)
  moreover have "consumer_main [NoMessage, NoMessage] = started"
    by (simp add: consumer_main_def finally_close_def on_poll_def started_def)
  ultimately show ?thesis by (simp add: started_def)
qed

text \<open>
  C5, as the consumer has it: a message that carries a bus error ends the loop. The
  consumer raises \<^verbatim>\<open>KafkaException\<close>, which nothing handles, closes in \<^verbatim>\<open>finally\<close>,
  and reads nothing that the bus delivers afterwards; there is no retry and no backoff.
\<close>

theorem bus_error_is_fatal:
  assumes "status (poll_loop started ps) = Running" and "msg_error m = Some e"
  shows "consumer_main (ps @ Message m # rest)
           = (poll_loop started ps)\<lparr>status := Raised (KafkaException e), closed := True\<rparr>"
proof -
  have "poll_loop started (ps @ Message m # rest)
          = poll_loop (poll_loop started ps) (Message m # rest)"
    by (rule poll_loop_append)
  also have "\<dots> = poll_loop (on_poll (poll_loop started ps) (Message m)) rest"
    using assms(1) by simp
  also have "on_poll (poll_loop started ps) (Message m)
          = (poll_loop started ps)\<lparr>status := Raised (KafkaException e)\<rparr>"
    using assms(2) by (simp add: on_poll_def)
  also have "poll_loop \<dots> rest = (poll_loop started ps)\<lparr>status := Raised (KafkaException e)\<rparr>"
    by (simp add: poll_loop_stopped)
  finally show ?thesis
    by (simp add: consumer_main_def finally_close_def)
qed

theorem bus_error_is_fatal_witness:
  "status (poll_loop started [NoMessage, Message trade_message]) = Running
   \<and> msg_error bus_error_message = Some ''Broker transport failure''
   \<and> consumer_main ([NoMessage, Message trade_message] @ Message bus_error_message
                      # [Message trade_message])
       = \<lparr>stdout = [banner, ''Received message: key=BTC-USD, value=42''],
          status = Raised (KafkaException ''Broker transport failure''), closed = True\<rparr>"
proof -
  have run: "poll_loop started [NoMessage, Message trade_message]
          = \<lparr>stdout = [banner, ''Received message: key=BTC-USD, value=42''],
             status = Running, closed = False\<rparr>"
    by (simp add: started_def on_poll_def trade_message_def received_line_def)
  have err: "msg_error bus_error_message = Some ''Broker transport failure''"
    by (simp add: bus_error_message_def)
  from run have "status (poll_loop started [NoMessage, Message trade_message]) = Running"
    by simp
  from bus_error_is_fatal [OF this err, of "[Message trade_message]"] run err
  show ?thesis by simp
qed

theorem bus_error_counterexample:
  "status (consumer_main [Message bus_error_message, Message trade_message])
     = Raised (KafkaException ''Broker transport failure'')
   \<and> closed (consumer_main [Message bus_error_message, Message trade_message])
   \<and> stdout (consumer_main [Message bus_error_message, Message trade_message]) = [banner]"
  by (simp add: consumer_main_def finally_close_def started_def on_poll_def
      bus_error_message_def)

section \<open>Properties of the Trade Store\<close>

lemma keys_upsert:
  "dedupKey ` set (snd (upsert t store)) = insert (dedupKey t) (dedupKey ` set store)"
  by (auto simp add: upsert_def)

lemma distinct_upsert:
  "distinct (map dedupKey store) \<Longrightarrow> distinct (map dedupKey (snd (upsert t store)))"
  by (simp add: upsert_def)

lemma keys_submit_all:
  "dedupKey ` set (submit_all evs store) = dedupKey ` set evs \<union> dedupKey ` set store"
proof (induction evs arbitrary: store)
  case Nil
  show ?case by simp
next
  case (Cons t ts)
  have "dedupKey ` set (submit_all (t # ts) store)
          = dedupKey ` set ts \<union> dedupKey ` set (snd (upsert t store))"
    using Cons.IH by simp
  then show ?case by (auto simp add: keys_upsert)
qed

lemma distinct_submit_all:
  "distinct (map dedupKey store) \<Longrightarrow> distinct (map dedupKey (submit_all evs store))"
  by (induction evs arbitrary: store) (simp_all add: distinct_upsert)

lemma one_per_key:
  assumes "distinct (map dedupKey store)" and "k \<in> set (map dedupKey store)"
  shows "length (filter (\<lambda>t. dedupKey t = k) store) = 1"
  using assms
proof (induction store)
  case Nil
  then show ?case by simp
next
  case (Cons a store)
  show ?case
  proof (cases "dedupKey a = k")
    case True
    from Cons.prems(1) have "dedupKey a \<notin> dedupKey ` set store"
      by simp
    with True have "\<forall>t \<in> set store. dedupKey t \<noteq> k"
      by (metis imageI)
    then have "filter (\<lambda>t. dedupKey t = k) store = []"
      by (simp add: filter_empty_conv)
    with True show ?thesis by simp
  next
    case False
    with Cons show ?thesis by simp
  qed
qed

text \<open>
  C1: whatever events are submitted, however often and in whatever order, a store that
  held at most one trade per \<open>dedupKey\<close> still does; it holds exactly one trade for
  the key of every submitted event; and submitting such an event once more changes
  nothing and answers \<open>Ack\<close>.
\<close>

theorem upsert_idempotent:
  assumes "distinct (map dedupKey store)"
  shows "distinct (map dedupKey (submit_all evs store))
         \<and> (\<forall>e \<in> set evs.
              length (filter (\<lambda>t. dedupKey t = dedupKey e) (submit_all evs store)) = 1
              \<and> upsert e (submit_all evs store) = (Ack, submit_all evs store))"
proof -
  have d: "distinct (map dedupKey (submit_all evs store))"
    using assms by (rule distinct_submit_all)
  have "length (filter (\<lambda>t. dedupKey t = dedupKey e) (submit_all evs store)) = 1
        \<and> upsert e (submit_all evs store) = (Ack, submit_all evs store)"
    if "e \<in> set evs" for e
  proof -
    from that have "dedupKey e \<in> dedupKey ` set (submit_all evs store)"
      by (simp add: keys_submit_all)
    then have k: "dedupKey e \<in> set (map dedupKey (submit_all evs store))"
      by simp
    from one_per_key [OF d k] k show ?thesis
      by (simp add: upsert_def)
  qed
  with d show ?thesis by blast
qed

theorem upsert_idempotent_witness:
  "distinct (map dedupKey ([] :: TradeStore))
   \<and> submit_all [stored ''t1'' 1, stored ''t2'' 2, stored ''t1'' 3, stored ''t1'' 1] []
       = [stored ''t1'' 1, stored ''t2'' 2]
   \<and> upsert (stored ''t1'' 3) [stored ''t1'' 1, stored ''t2'' 2]
       = (Ack, [stored ''t1'' 1, stored ''t2'' 2])"
proof -
  have run: "submit_all [stored ''t1'' 1, stored ''t2'' 2, stored ''t1'' 3, stored ''t1'' 1] []
          = [stored ''t1'' 1, stored ''t2'' 2]"
    by (simp add: upsert_def stored_def)
  have "distinct (map dedupKey ([] :: TradeStore))" by simp
  from upsert_idempotent [OF this,
      of "[stored ''t1'' 1, stored ''t2'' 2, stored ''t1'' 3, stored ''t1'' 1]"] run
  show ?thesis by simp
qed

section \<open>The history query\<close>

lemma fetch_trades_result:
  "snd (fetch_trades w symb limit) =
     (if accepting (server w)
      then (case trades_table (server w) of
              None \<Rightarrow> Inl DatabaseError
            | Some tbl \<Rightarrow>
                if limit < 0 \<or> 2 ^ 63 \<le> limit then Inl DatabaseError
                else Inr (sort_values (take (nat limit) (order_by_desc (where_symbol tbl symb)))))
      else Inl OperationalError)"
  by (simp add: fetch_trades_def connect_def read_sql_def close_conn_def run_query_def
      sort_values_def Let_def split: option.splits)

lemma fetch_trades_returns:
  assumes "accepting (server w)" and "trades_table (server w) = Some tbl"
    and "0 \<le> limit" and "limit < 2 ^ 63"
  shows "snd (fetch_trades w symb limit)
           = Inr (sort_values (take (nat limit) (order_by_desc (where_symbol tbl symb))))"
  using assms by (simp add: fetch_trades_result)

lemma fetch_trades_returned:
  assumes "snd (fetch_trades w symb limit) = Inr df"
  obtains tbl where "accepting (server w)" and "trades_table (server w) = Some tbl"
    and "0 \<le> limit" and "limit < 2 ^ 63"
    and "df = sort_values (take (nat limit) (order_by_desc (where_symbol tbl symb)))"
  using assms by (auto simp add: fetch_trades_result split: if_splits option.splits)

lemma sorted_sort_values: "sorted (map trade_time (sort_values df))"
  by (simp add: sort_values_def)

lemma mset_sort_values: "mset (sort_values df) = mset df"
  by (simp add: sort_values_def)

lemma insort_key_map:
  "insort_key f (g x) (map g xs) = map g (insort_key (\<lambda>r. f (g r)) x xs)"
  by (induction xs) simp_all

lemma sort_key_map: "sort_key f (map g xs) = map g (sort_key (\<lambda>r. f (g r)) xs)"
  by (induction xs) (simp_all add: insort_key_map)

text \<open>
  The query, read on the rows of the table: the rows of the symbol, the most recent
  first, cut to the row count and projected.
\<close>

lemma query_rows:
  "take n (order_by_desc (where_symbol tbl symb))
     = map select_cols
         (take n (sort_key (\<lambda>r. - trade_time r) (filter (\<lambda>r. symbol r = symb) tbl)))"
  by (simp add: order_by_desc_def where_symbol_def sort_key_map select_cols_def take_map)

lemma length_query_rows:
  "length (sort_values (take n (order_by_desc (where_symbol tbl symb))))
     = min n (length (filter (\<lambda>r. symbol r = symb) tbl))"
  by (simp add: query_rows sort_values_def min.commute)

lemma sort_key_desc_descending:
  assumes "x \<in> set (take n (sort_key (\<lambda>r. - trade_time r) rows))"
    and "y \<in> set (drop n (sort_key (\<lambda>r. - trade_time r) rows))"
  shows "trade_time y \<le> trade_time x"
proof -
  define d where "d = sort_key (\<lambda>r. - trade_time r) rows"
  have "sorted (map (\<lambda>r. - trade_time r) (take n d @ drop n d))"
    by (simp add: d_def)
  then have "\<forall>a \<in> set (take n d). \<forall>b \<in> set (drop n d). - trade_time a \<le> - trade_time b"
    unfolding map_append sorted_append by auto
  with assms show ?thesis
    unfolding d_def by fastforce
qed

text \<open>
  C2, as the code has it: whatever was inserted and in whatever order, the rows that
  \<^verbatim>\<open>fetch_trades\<close> returns are in ascending order of \<open>trade_time\<close>, equal times
  allowed; the order is strict exactly when the returned times are pairwise distinct.
\<close>

theorem fetch_trades_ascending:
  assumes "snd (fetch_trades w symb limit) = Inr df"
  shows "sorted (map trade_time df)
         \<and> (sorted_wrt (<) (map trade_time df) \<longleftrightarrow> distinct (map trade_time df))"
proof -
  from assms obtain tbl
    where "df = sort_values (take (nat limit) (order_by_desc (where_symbol tbl symb)))"
    by (rule fetch_trades_returned)
  then have "sorted (map trade_time df)"
    by (simp add: sorted_sort_values)
  then show ?thesis
    by (simp add: strict_sorted_iff)
qed

theorem fetch_trades_ascending_witness:
  "snd (fetch_trades (world_of example_table) ''BTCUSDT'' 3)
     = Inr [\<lparr>trade_time = 20, price = 102, quantity = 1\<rparr>,
            \<lparr>trade_time = 30, price = 103, quantity = 1\<rparr>,
            \<lparr>trade_time = 40, price = 104, quantity = 1\<rparr>]
   \<and> sorted_wrt (<) (map trade_time
        [\<lparr>trade_time = 20, price = 102, quantity = 1\<rparr>,
         \<lparr>trade_time = 30, price = 103, quantity = 1\<rparr>,
         \<lparr>trade_time = 40, price = 104, quantity = 1\<rparr>])"
proof -
  have run: "snd (fetch_trades (world_of example_table) ''BTCUSDT'' 3)
     = Inr [\<lparr>trade_time = 20, price = 102, quantity = 1\<rparr>,
            \<lparr>trade_time = 30, price = 103, quantity = 1\<rparr>,
            \<lparr>trade_time = 40, price = 104, quantity = 1\<rparr>]"
    by (simp add: fetch_trades_result world_of_def example_table_def row_def where_symbol_def
        select_cols_def order_by_desc_def sort_values_def numeral_3_eq_3)
  from fetch_trades_ascending [OF run] run show ?thesis by simp
qed

theorem strictly_ascending_counterexample:
  "snd (fetch_trades (world_of tied_table) ''BTCUSDT'' 2)
     = Inr [\<lparr>trade_time = 10, price = 101, quantity = 1\<rparr>,
            \<lparr>trade_time = 10, price = 102, quantity = 1\<rparr>]
   \<and> \<not> sorted_wrt (<) (map trade_time
        [\<lparr>trade_time = 10, price = 101, quantity = 1\<rparr>,
         \<lparr>trade_time = 10, price = 102, quantity = 1\<rparr>])"
  by (simp add: fetch_trades_result world_of_def tied_table_def row_def where_symbol_def
      select_cols_def order_by_desc_def sort_values_def numeral_2_eq_2)

text \<open>
  C7: with the database reachable and a row count that the database accepts,
  \<^verbatim>\<open>fetch_trades\<close> returns the three columns of rows of the table that carry the
  asked symbol, no row more often than the table holds it: \<open>limit\<close> of them, or all of
  them when the symbol has fewer. They come in ascending order of \<open>trade_time\<close>, and
  every row of the symbol that is left out is at most as recent as every row that is
  returned.
\<close>

theorem fetch_trades_most_recent:
  assumes "accepting (server w)" and "trades_table (server w) = Some tbl"
    and "0 \<le> limit" and "limit < 2 ^ 63"
  shows "\<exists>df kept.
           snd (fetch_trades w symb limit) = Inr df
           \<and> kept \<subseteq># filter_mset (\<lambda>r. symbol r = symb) (mset tbl)
           \<and> mset df = image_mset (\<lambda>r. \<lparr>trade_time = trade_time r, price = price r,
                                         quantity = quantity r\<rparr>) kept
           \<and> length df = min (nat limit) (length (filter (\<lambda>r. symbol r = symb) tbl))
           \<and> int (length df) \<le> limit
           \<and> sorted (map trade_time df)
           \<and> (\<forall>r \<in># filter_mset (\<lambda>r. symbol r = symb) (mset tbl) - kept. \<forall>x \<in># kept.
                 trade_time r \<le> trade_time x)"
proof -
  define d where "d = sort_key (\<lambda>r. - trade_time r) (filter (\<lambda>r. symbol r = symb) tbl)"
  define kept where "kept = mset (take (nat limit) d)"
  define df where "df = sort_values (take (nat limit) (order_by_desc (where_symbol tbl symb)))"
  have ret: "snd (fetch_trades w symb limit) = Inr df"
    using assms by (simp add: fetch_trades_returns df_def)
  have split: "filter_mset (\<lambda>r. symbol r = symb) (mset tbl) = kept + mset (drop (nat limit) d)"
  proof -
    have "mset (take (nat limit) d) + mset (drop (nat limit) d) = mset d"
      by (metis append_take_drop_id mset_append)
    then show ?thesis
      by (simp add: kept_def d_def)
  qed
  have sub: "kept \<subseteq># filter_mset (\<lambda>r. symbol r = symb) (mset tbl)"
    by (simp add: split)
  have cols: "mset df = image_mset (\<lambda>r. \<lparr>trade_time = trade_time r, price = price r,
                                          quantity = quantity r\<rparr>) kept"
  proof -
    have "select_cols = (\<lambda>r. \<lparr>trade_time = trade_time r, price = price r,
                                quantity = quantity r\<rparr>)"
      by (rule ext) (simp add: select_cols_def)
    then show ?thesis
      by (simp add: df_def query_rows mset_sort_values kept_def d_def)
  qed
  have len: "length df = min (nat limit) (length (filter (\<lambda>r. symbol r = symb) tbl))"
    by (simp add: df_def length_query_rows)
  have bound: "int (length df) \<le> limit"
    using len assms(3) by linarith
  have asc: "sorted (map trade_time df)"
    by (simp add: df_def sorted_sort_values)
  have rest: "filter_mset (\<lambda>r. symbol r = symb) (mset tbl) - kept = mset (drop (nat limit) d)"
    by (simp add: split)
  have recent: "trade_time r \<le> trade_time x"
    if "r \<in># filter_mset (\<lambda>r. symbol r = symb) (mset tbl) - kept" and "x \<in># kept" for r x
  proof -
    from that(1) have "r \<in> set (drop (nat limit) d)"
      by (simp only: rest set_mset_mset)
    moreover from that(2) have "x \<in> set (take (nat limit) d)"
      by (simp only: kept_def set_mset_mset)
    ultimately show ?thesis
      unfolding d_def by (rule sort_key_desc_descending [rotated])
  qed
  from ret sub cols len bound asc recent show ?thesis by blast
qed

theorem fetch_trades_most_recent_witness:
  "accepting (server (world_of example_table))
   \<and> trades_table (server (world_of example_table)) = Some example_table
   \<and> snd (fetch_trades (world_of example_table) ''BTCUSDT'' 2)
       = Inr [\<lparr>trade_time = 30, price = 103, quantity = 1\<rparr>,
              \<lparr>trade_time = 40, price = 104, quantity = 1\<rparr>]
   \<and> snd (fetch_trades (world_of example_table) ''ETHUSDT'' 2)
       = Inr [\<lparr>trade_time = 10, price = 7, quantity = 1\<rparr>]"
proof -
  have a: "accepting (server (world_of example_table))"
    and t: "trades_table (server (world_of example_table)) = Some example_table"
    by (simp_all add: world_of_def)
  have run: "snd (fetch_trades (world_of example_table) ''BTCUSDT'' 2)
       = Inr [\<lparr>trade_time = 30, price = 103, quantity = 1\<rparr>,
              \<lparr>trade_time = 40, price = 104, quantity = 1\<rparr>]"
    by (simp add: fetch_trades_result world_of_def example_table_def row_def where_symbol_def
        select_cols_def order_by_desc_def sort_values_def numeral_2_eq_2)
  have other: "snd (fetch_trades (world_of example_table) ''ETHUSDT'' 2)
       = Inr [\<lparr>trade_time = 10, price = 7, quantity = 1\<rparr>]"
    by (simp add: fetch_trades_result world_of_def example_table_def row_def where_symbol_def
        select_cols_def order_by_desc_def sort_values_def numeral_2_eq_2)
  from fetch_trades_most_recent [OF a t, of 2 "''BTCUSDT''"] a t run other
  show ?thesis by simp
qed

text \<open>
  C4, as the code has it: \<^verbatim>\<open>fetch_trades\<close> checks no bounds and knows no
  \<open>InvalidLimit\<close>. With the database reachable and the table present it serves every
  row count that the database accepts, from \<open>0\<close> on, and returns as many rows as
  asked, or all rows of the symbol when there are fewer; so \<open>0\<close> and \<open>100000\<close>,
  both outside 1-10000, are served.
\<close>

theorem fetch_trades_accepts_any_limit:
  assumes "accepting (server w)" and "trades_table (server w) = Some tbl"
    and "0 \<le> limit" and "limit < 2 ^ 63"
  shows "\<exists>df. snd (fetch_trades w symb limit) = Inr df
           \<and> length df = min (nat limit) (length (filter (\<lambda>r. symbol r = symb) tbl))"
  using assms by (simp add: fetch_trades_returns length_query_rows)

theorem fetch_trades_accepts_any_limit_witness:
  "accepting (server (world_of example_table))
   \<and> trades_table (server (world_of example_table)) = Some example_table
   \<and> (\<exists>df. snd (fetch_trades (world_of example_table) ''BTCUSDT'' 100000) = Inr df
           \<and> length df = 4)
   \<and> (\<exists>df. snd (fetch_trades (world_of example_table) ''BTCUSDT'' 0) = Inr df
           \<and> length df = 0)"
proof -
  have a: "accepting (server (world_of example_table))"
    and t: "trades_table (server (world_of example_table)) = Some example_table"
    by (simp_all add: world_of_def)
  have n: "length (filter (\<lambda>r. symbol r = ''BTCUSDT'') example_table) = 4"
    by (simp add: example_table_def row_def)
  from fetch_trades_accepts_any_limit [OF a t, of 100000 "''BTCUSDT''"]
    fetch_trades_accepts_any_limit [OF a t, of 0 "''BTCUSDT''"] a t n
  show ?thesis by simp
qed

theorem invalid_limit_counterexample:
  "snd (fetch_trades (world_of tied_table) ''BTCUSDT'' 0) = Inr []
   \<and> snd (fetch_trades (world_of tied_table) ''BTCUSDT'' 100000)
       = Inr [\<lparr>trade_time = 10, price = 101, quantity = 1\<rparr>,
              \<lparr>trade_time = 10, price = 102, quantity = 1\<rparr>]"
  by (simp add: fetch_trades_result world_of_def tied_table_def row_def where_symbol_def
      select_cols_def order_by_desc_def sort_values_def)

text \<open>
  C6: when no stored row has the symbol, \<^verbatim>\<open>fetch_trades\<close> returns the empty frame, not
  an error, and \<^verbatim>\<open>update_chart\<close> answers with the figure titled "no data found", which
  has no trace and so differs from every chart of a frame that has rows.
\<close>

theorem empty_history_is_no_data:
  assumes "accepting (server w)" and "trades_table (server w) = Some tbl"
    and "\<forall>r \<in> set tbl. symbol r \<noteq> symb" and "0 \<le> limit" and "limit < 2 ^ 63"
  shows "snd (fetch_trades w symb limit) = Inr []
         \<and> snd (update_chart w symb limit n_intervals) = Inr (no_data_figure symb)
         \<and> fig_data (no_data_figure symb) = []
         \<and> layout_title (fig_layout (no_data_figure symb))
             = symb @ '' '' @ en_dash @ '' no data found''
         \<and> (\<forall>s df. df \<noteq> [] \<longrightarrow> chart_figure s df \<noteq> no_data_figure symb)"
proof -
  from assms(3) have "where_symbol tbl symb = []"
    by (simp add: where_symbol_def filter_empty_conv)
  with assms have empty: "snd (fetch_trades w symb limit) = Inr []"
    by (simp add: fetch_trades_returns order_by_desc_def sort_values_def)
  then obtain w' where "fetch_trades w symb limit = (w', Inr [])"
    by (cases "fetch_trades w symb limit") simp
  then have chart: "snd (update_chart w symb limit n_intervals) = Inr (no_data_figure symb)"
    by (simp add: update_chart_def)
  have distinct: "chart_figure s df \<noteq> no_data_figure symb" if "df \<noteq> []" for s df
  proof
    assume "chart_figure s df = no_data_figure symb"
    then have "fig_data (chart_figure s df) = fig_data (no_data_figure symb)"
      by simp
    then show False
      by (simp add: chart_figure_def no_data_figure_def chart_traces_def split: if_splits)
  qed
  from empty chart distinct show ?thesis
    by (simp add: no_data_figure_def)
qed

theorem empty_history_is_no_data_witness:
  "accepting (server (world_of example_table))
   \<and> trades_table (server (world_of example_table)) = Some example_table
   \<and> snd (fetch_trades (world_of example_table) ''UNKNOWN'' 100) = Inr []
   \<and> snd (update_chart (world_of example_table) ''UNKNOWN'' 100 7)
       = Inr (no_data_figure ''UNKNOWN'')"
proof -
  have a: "accepting (server (world_of example_table))"
    and t: "trades_table (server (world_of example_table)) = Some example_table"
    by (simp_all add: world_of_def)
  have u: "\<forall>r \<in> set example_table. symbol r \<noteq> ''UNKNOWN''"
    by (simp add: example_table_def row_def)
  from empty_history_is_no_data [OF a t u, of 100 7] a t u show ?thesis by simp
qed


section \<open>The moving average\<close>

lemma rolling_window_short: "Suc i < k \<Longrightarrow> length (rolling_window k xs i) < k"
  by (simp add: rolling_window_def)

lemma take_drop_nths:
  assumes "m + k \<le> length xs"
  shows "take k (drop m xs) = map (\<lambda>j. xs ! j) [m..<m + k]"
proof (rule nth_equalityI)
  show "length (take k (drop m xs)) = length (map (\<lambda>j. xs ! j) [m..<m + k])"
    using assms by simp
next
  fix j
  assume "j < length (take k (drop m xs))"
  then have "j < k" by simp
  with assms show "take k (drop m xs) ! j = map (\<lambda>j. xs ! j) [m..<m + k] ! j"
    by simp
qed

lemma rolling_window_full:
  assumes "k \<le> Suc i" and "i < length xs"
  shows "rolling_window k xs i = map (\<lambda>j. xs ! j) [Suc i - k..<Suc i - k + k]"
proof -
  from assms(1) have "Suc i - (Suc i - k) = k"
    by arith
  then have "rolling_window k xs i = take k (drop (Suc i - k) xs)"
    by (simp only: rolling_window_def)
  moreover from assms have "Suc i - k + k \<le> length xs"
    by arith
  ultimately show ?thesis
    by (simp only: take_drop_nths)
qed

lemma length_rolling_window:
  assumes "k \<le> Suc i" and "i < length xs"
  shows "length (rolling_window k xs i) = k"
  using assms by (simp only: rolling_window_full length_map length_upt)

lemma sum_rolling_window:
  assumes "k \<le> Suc i" and "i < length xs"
  shows "sum_list (rolling_window k xs i) = (\<Sum>j = Suc i - k..i. xs ! j)"
proof -
  have "sum_list (rolling_window k xs i) = (\<Sum>j \<in> set [Suc i - k..<Suc i - k + k]. xs ! j)"
    using assms by (simp only: rolling_window_full interv_sum_list_conv_sum_set_nat)
  also from assms(1) have "set [Suc i - k..<Suc i - k + k] = {Suc i - k..i}"
    by auto
  finally show ?thesis .
qed

lemma rolling_mean_nth:
  assumes "i < length xs"
  shows "rolling_mean k xs ! i =
           (if 0 < k \<and> k \<le> Suc i then Some ((\<Sum>j = Suc i - k..i. xs ! j) / of_nat k)
            else None)"
proof (cases "0 < k \<and> k \<le> Suc i")
  case True
  with assms have len: "length (rolling_window k xs i) = k"
    by (simp add: length_rolling_window)
  with True have full: "k \<le> length (rolling_window k xs i) \<and> 0 < length (rolling_window k xs i)"
    by simp
  from True assms have "sum_list (rolling_window k xs i) = (\<Sum>j = Suc i - k..i. xs ! j)"
    by (simp add: sum_rolling_window)
  with len have "mean (rolling_window k xs i) = (\<Sum>j = Suc i - k..i. xs ! j) / of_nat k"
    by (simp add: mean_def)
  with True full assms show ?thesis
    by (simp add: rolling_mean_def Let_def)
next
  case False
  then have "k = 0 \<or> Suc i < k"
    by auto
  then have "\<not> (k \<le> length (rolling_window k xs i) \<and> 0 < length (rolling_window k xs i))"
  proof
    assume "k = 0"
    then show ?thesis by (simp add: rolling_window_def)
  next
    assume "Suc i < k"
    then have "length (rolling_window k xs i) < k"
      by (rule rolling_window_short)
    then show ?thesis by simp
  qed
  with False assms show ?thesis
    by (simp add: rolling_mean_def Let_def)
qed

lemma rolling_mean_count:
  assumes "1 \<le> k"
  shows "length (filter (\<lambda>p. p \<noteq> None) (rolling_mean k xs)) = Suc (length xs) - k"
proof -
  have n: "length (rolling_mean k xs) = length xs"
    by (simp add: rolling_mean_def)
  have "{i. i < length (rolling_mean k xs) \<and> rolling_mean k xs ! i \<noteq> None}
          = {i. i < length xs \<and> k \<le> Suc i}"
    using assms by (auto simp add: n rolling_mean_nth split: if_splits)
  also have "\<dots> = {k - 1..<length xs}"
    using assms by auto
  finally have "length (filter (\<lambda>p. p \<noteq> None) (rolling_mean k xs))
                  = card {k - 1..<length xs}"
    by (simp add: length_filter_conv_card)
  with assms show ?thesis by simp
qed

lemma rolling_mean_count_int:
  assumes "1 \<le> k"
  shows "int (length (filter (\<lambda>p. p \<noteq> None) (rolling_mean k xs)))
           = max 0 (int (length xs) - int k + 1)"
proof -
  have c: "length (filter (\<lambda>p. p \<noteq> None) (rolling_mean k xs)) = Suc (length xs) - k"
    using assms by (rule rolling_mean_count)
  show ?thesis
    unfolding c by arith
qed

text \<open>
  C3: for a window size \<open>k\<close> of at least one, the rolling mean over \<open>N\<close> prices is
  aligned with them and holds exactly \<open>max(0, N - k + 1)\<close> points: none at an index
  below \<open>k - 1\<close>, and from there on the arithmetic mean of the \<open>k\<close> prices that end
  at the index. \<^verbatim>\<open>update_chart\<close> uses the window size 10 and draws the average only
  from 10 rows on, so its chart holds \<open>max(0, N - 9)\<close> points of the average.
\<close>

theorem rolling_mean_window:
  assumes "1 \<le> k"
  shows "length (rolling_mean k xs) = length xs
         \<and> int (length (filter (\<lambda>p. p \<noteq> None) (rolling_mean k xs)))
             = max 0 (int (length xs) - int k + 1)
         \<and> (\<forall>i < length xs. i < k - 1 \<longrightarrow> rolling_mean k xs ! i = None)
         \<and> (\<forall>i < length xs. k - 1 \<le> i \<longrightarrow>
               rolling_mean k xs ! i = Some ((\<Sum>j = i + 1 - k..i. xs ! j) / of_nat k))
         \<and> int (length (filter (\<lambda>p. p \<noteq> None)
                 (concat (map trace_y (filter (\<lambda>t. trace_name t = ''MA(10)'') (chart_traces df))))))
             = max 0 (int (length df) - 10 + 1)"
proof -
  have aligned: "length (rolling_mean k xs) = length xs"
    by (simp add: rolling_mean_def)
  have count: "int (length (filter (\<lambda>p. p \<noteq> None) (rolling_mean k xs)))
                 = max 0 (int (length xs) - int k + 1)"
    using assms by (rule rolling_mean_count_int)
  have early: "rolling_mean k xs ! i = None" if "i < length xs" and "i < k - 1" for i
    using that by (simp add: rolling_mean_nth; arith)
  have late: "rolling_mean k xs ! i = Some ((\<Sum>j = i + 1 - k..i. xs ! j) / of_nat k)"
    if "i < length xs" and "k - 1 \<le> i" for i
    using that assms by (simp add: rolling_mean_nth)
  have chart: "int (length (filter (\<lambda>p. p \<noteq> None)
                 (concat (map trace_y (filter (\<lambda>t. trace_name t = ''MA(10)'') (chart_traces df))))))
             = max 0 (int (length df) - 10 + 1)"
  proof (cases "10 \<le> length df")
    case True
    then have "concat (map trace_y (filter (\<lambda>t. trace_name t = ''MA(10)'') (chart_traces df)))
                 = rolling_mean 10 (map price df)"
      by (simp add: chart_traces_def price_trace_def ma_trace_def)
    with True rolling_mean_count_int [of 10 "map price df"] show ?thesis
      by simp
  next
    case False
    then have "concat (map trace_y (filter (\<lambda>t. trace_name t = ''MA(10)'') (chart_traces df)))
                 = []"
      by (simp add: chart_traces_def price_trace_def)
    with False show ?thesis by simp
  qed
  from aligned count early late chart show ?thesis by blast
qed

theorem rolling_mean_window_witness:
  "(1::nat) \<le> 3
   \<and> rolling_mean 3 [1, 2, 3, 4, 5] = [None, None, Some 2, Some 3, Some 4]
   \<and> length (filter (\<lambda>p. p \<noteq> None) (rolling_mean 3 [1, 2, 3, 4, 5])) = 3"
proof -
  have run: "rolling_mean 3 [1, 2, 3, 4, 5] = [None, None, Some 2, Some 3, Some 4]"
    by code_simp
  have "(1::nat) \<le> 3" by simp
  from rolling_mean_window [OF this, of "[1, 2, 3, 4, 5]" "[]"] run show ?thesis by simp
qed


end
